theory Spec2Isabelle
  imports Complex_Main "HOL-Library.Signed_Division"
begin

section \<open>The GPS tracker of script.js\<close>

text \<open>
  The program keeps its state in module-level variables (\<open>positions\<close>, \<open>watchId\<close>,
  \<open>startTime\<close>, the map objects), in the text of a few DOM elements and in one
  \<open>localStorage\<close> item. Each JavaScript function becomes a function from the state
  to the state it leaves behind; a function that can end in an uncaught exception returns
  an \<open>outcome\<close>.

  JavaScript numbers are IEEE doubles. Coordinates and distances are modelled as
  \<open>real\<close>: rounding, \<open>NaN\<close> and signed zeros are outside the model. So the value of
  \<open>haversineDistance\<close> below is the exact value of the formula, not the double the
  program computes, and nothing here is a statement about that double; the recorder
  passes distances on without looking into them. Clock readings (\<open>Date.now()\<close>,
  milliseconds) are integers.
\<close>

subsection \<open>Decimal text of integers\<close>

text \<open>What a template literal makes of an integral number.\<close>

definition digit :: "nat \<Rightarrow> char" where
  "digit n = ''0123456789'' ! (n mod 10)"

fun show_nat :: "nat \<Rightarrow> string" where
  "show_nat n = (if n < 10 then [digit n] else show_nat (n div 10) @ [digit n])"

declare show_nat.simps [simp del]

definition show_int :: "int \<Rightarrow> string" where
  "show_int k = (if k < 0 then CHR ''-'' # show_nat (nat (- k)) else show_nat (nat k))"

text \<open>The text \<^verbatim>\<open>${mins}m ${secs}s\<close> of lines 108-110 and 204, from the seconds.\<close>

definition durationText :: "int \<Rightarrow> string" where
  "durationText seconds = show_int (seconds div 60) @ ''m '' @ show_int (seconds smod 60) @ ''s''"

subsection \<open>Distance (lines 174-196)\<close>

text \<open>
  \<open>Math.atan2(y, x)\<close> on real arguments: the angle of the point \<open>(x, y)\<close>, in
  \<open>(-\<pi>, \<pi>]\<close>, and \<open>0\<close> at the origin.
\<close>

definition atan2 :: "real \<Rightarrow> real \<Rightarrow> real" where
  "atan2 y x =
     (if 0 < x then arctan (y / x)
      else if x < 0 then (if 0 \<le> y then arctan (y / x) + pi else arctan (y / x) - pi)
      else if 0 < y then pi / 2
      else if y < 0 then - (pi / 2)
      else 0)"

text \<open>
  The formula of lines 186-196 in exact arithmetic. The program evaluates it in doubles,
  where the result can differ: for nearly antipodal points \<open>a\<close> can round above \<open>1\<close>,
  the square root of \<open>1 - a\<close> is then \<open>NaN\<close> and so is the result; and where the
  exact value is \<open>0\<close> for two different coordinate pairs (at a pole, or at longitudes
  \<open>-180\<close> and \<open>180\<close>) the program returns a small positive number.
\<close>

definition haversineDistance :: "real \<Rightarrow> real \<Rightarrow> real \<Rightarrow> real \<Rightarrow> real" where
  "haversineDistance lat1 lon1 lat2 lon2 =
     (let R = 6371;
          dLat = (lat2 - lat1) * pi / 180;
          dLon = (lon2 - lon1) * pi / 180;
          a = sin (dLat / 2) * sin (dLat / 2) +
              cos (lat1 * pi / 180) * cos (lat2 * pi / 180) *
              sin (dLon / 2) * sin (dLon / 2);
          c = 2 * atan2 (sqrt a) (sqrt (1 - a))
      in R * c)"

text \<open>The quantity \<open>a\<close> of lines 190-193, on its own.\<close>

definition haversine_a :: "real \<Rightarrow> real \<Rightarrow> real \<Rightarrow> real \<Rightarrow> real" where
  "haversine_a lat1 lon1 lat2 lon2 =
     sin ((lat2 - lat1) * pi / 180 / 2) * sin ((lat2 - lat1) * pi / 180 / 2) +
     cos (lat1 * pi / 180) * cos (lat2 * pi / 180) *
     sin ((lon2 - lon1) * pi / 180 / 2) * sin ((lon2 - lon1) * pi / 180 / 2)"

text \<open>
  An element of \<open>positions\<close>: the array \<open>[latitude, longitude]\<close>, together with what
  reading its property \<open>timestamp\<close> gives (\<open>None\<close> for \<open>undefined\<close>), since
  \<open>getTrackingDuration\<close> reads that property.
\<close>

record point =
  lat :: real
  lon :: real
  timestamp :: "int option"

text \<open>The \<open>for\<close> loop of \<open>calculateDistance\<close>, from index \<open>i\<close> with the running total.\<close>

function calculateDistance_loop :: "point list \<Rightarrow> nat \<Rightarrow> real \<Rightarrow> real" where
  "calculateDistance_loop points i total' =
     (if i < length points
      then calculateDistance_loop points (i + 1)
             (total' + haversineDistance (lat (points ! (i - 1))) (lon (points ! (i - 1)))
                                        (lat (points ! i)) (lon (points ! i)))
      else total')"
  by pat_completeness auto
termination
  by (relation "measure (\<lambda>(points, i, t). length points - i)") auto

definition calculateDistance :: "point list \<Rightarrow> real" where
  "calculateDistance points = calculateDistance_loop points 1 0"

subsection \<open>The platform\<close>

text \<open>
  A stored text is modelled by what the program can observe of it: \<open>getItem\<close> yields a
  string that is empty (\<open>EmptyText\<close>, falsy for \<open>||\<close>, and rejected by \<open>JSON.parse\<close>), or
  that is not empty and that \<open>JSON.parse\<close> rejects (\<open>Malformed\<close>), or that
  \<open>JSON.parse\<close> turns into a value (\<open>Json\<close>). \<open>JSON.stringify\<close> of a value built from finite
  numbers, strings, arrays and plain objects is the text that parses back to that value.
\<close>

datatype json =
    JNull
  | JBool bool
  | JNum real
  | JStr string
  | JArr "json list"
  | JObj "(string \<times> json) list"

datatype payload = EmptyText | Malformed | Json json

datatype error = SyntaxError | TypeError | QuotaExceededError

definition JSON_parse :: "payload \<Rightarrow> error + json" where
  "JSON_parse t = (case t of EmptyText \<Rightarrow> Inl SyntaxError
                           | Malformed \<Rightarrow> Inl SyntaxError
                           | Json v \<Rightarrow> Inr v)"

text \<open>\<open>tracks.push(x)\<close>: only an array has \<open>push\<close>.\<close>

definition push :: "json \<Rightarrow> json \<Rightarrow> error + json" where
  "push tracks x = (case tracks of JArr xs \<Rightarrow> Inr (JArr (xs @ [x])) | _ \<Rightarrow> Inl TypeError)"

text \<open>
  \<open>position.coords\<close> of the Geolocation API (\<open>speed\<close> may be \<open>null\<close>), with the
  property \<open>timestamp\<close> that the wrapper of lines 224-236 adds, and the position itself,
  whose own capture time \<open>position.timestamp\<close> the program never reads.
\<close>

record coords =
  latitude :: real
  longitude :: real
  speed :: "real option"
  accuracy :: real
  c_timestamp :: "int option"

record position =
  coords :: coords
  p_timestamp :: int

text \<open>
  What the browser supplies: the \<open>n\<close>-th reading of the system clock, whether
  \<open>navigator.geolocation\<close> exists, number and date formatting, and whether
  \<open>localStorage\<close> accepts a value (it throws when the quota is exceeded).
\<close>

record env =
  clock :: "nat \<Rightarrow> int"
  geolocation :: bool
  toFixed :: "nat \<Rightarrow> real \<Rightarrow> string"
  toLocaleString :: "int \<Rightarrow> string"
  toLocaleTimeString :: "int \<Rightarrow> string"
  quota :: "json \<Rightarrow> bool"

subsection \<open>The state (lines 1-22)\<close>

record state =
  watchId :: "int option"
  positions :: "point list"
  startTime :: "int option"
  lastPositionTime :: "int option"
  marker :: "(real \<times> real) option"
  polyline :: "(real \<times> real) list option"
  mapView :: "real \<times> real"
  markerOnMap :: bool
  polylineOnMap :: bool
  startBtnDisabled :: bool
  stopBtnDisabled :: bool
  latitudeEl :: string
  longitudeEl :: string
  speedEl :: string
  accuracyEl :: string
  distanceEl :: string
  durationEl :: string
  pointCountEl :: string
  notifications :: "string list"
  alerts :: "string list"
  gpsTracks :: "payload option"
  activeWatches :: "int list"
  nextWatchId :: int
  ticks :: nat

datatype outcome = Returned state | Threw error state

fun after :: "outcome \<Rightarrow> state" where
  "after (Returned s) = s"
| "after (Threw err s) = s"

text \<open>The exception that escaped, if any.\<close>

fun threw :: "outcome \<Rightarrow> error option" where
  "threw (Returned s) = None"
| "threw (Threw err s) = Some err"

text \<open>\<open>Date.now()\<close> and \<open>new Date()\<close> read the clock.\<close>

definition Date_now :: "env \<Rightarrow> state \<Rightarrow> int \<times> state" where
  "Date_now e s = (clock e (ticks s), s\<lparr>ticks := Suc (ticks s)\<rparr>)"

text \<open>Truthiness of a number that may be \<open>null\<close> or \<open>undefined\<close>.\<close>

definition truthy :: "'a::zero option \<Rightarrow> bool" where
  "truthy v = (case v of None \<Rightarrow> False | Some x \<Rightarrow> x \<noteq> 0)"

subsection \<open>Statistics and the map (lines 74-139)\<close>

definition updateStats :: "env \<Rightarrow> state \<Rightarrow> state" where
  "updateStats e s =
     (let s1 = s\<lparr>pointCountEl := show_nat (length (positions s))\<rparr>;
          s2 = (if truthy (startTime s1)
                then (let (now, s') = Date_now e s1;
                          seconds = (now - the (startTime s1)) div 1000
                      in s'\<lparr>durationEl := durationText seconds\<rparr>)
                else s1)
      in if length (positions s2) > 1
         then s2\<lparr>distanceEl := toFixed e 2 (calculateDistance (positions s2)) @ '' km''\<rparr>
         else s2)"

definition updateMap :: "env \<Rightarrow> coords \<Rightarrow> state \<Rightarrow> state" where
  "updateMap e c s =
     (let newLatLng = (latitude c, longitude c);
          s1 = (if marker s = None
                then s\<lparr>marker := Some newLatLng, markerOnMap := True\<rparr>
                else s\<lparr>marker := Some newLatLng\<rparr>);
          s2 = s1\<lparr>mapView := newLatLng\<rparr>;
          s3 = (if length (positions s2) > 1
                then (let s' = (if polyline s2 \<noteq> None then s2\<lparr>polylineOnMap := False\<rparr> else s2)
                      in s'\<lparr>polyline := Some (map (\<lambda>p. (lat p, lon p)) (positions s')),
                            polylineOnMap := True\<rparr>)
                else s2)
      in updateStats e s3)"

definition clearTracking :: "state \<Rightarrow> state" where
  "clearTracking s =
     (let s1 = s\<lparr>positions := [], startTime := None, lastPositionTime := None\<rparr>;
          s2 = (if polyline s1 \<noteq> None then s1\<lparr>polylineOnMap := False\<rparr> else s1);
          s3 = (if marker s2 \<noteq> None then s2\<lparr>markerOnMap := False\<rparr> else s2)
      in s3\<lparr>polyline := None, marker := None,
            latitudeEl := ''-'', longitudeEl := ''-'', speedEl := ''-'', accuracyEl := ''-'',
            distanceEl := ''0 km'', durationEl := ''0s'', pointCountEl := ''0''\<rparr>)"

subsection \<open>Receiving positions (lines 43-57 and 224-236)\<close>

text \<open>The success callback that \<open>startTracking\<close> hands to \<open>watchPosition\<close>.\<close>

definition onPosition :: "env \<Rightarrow> coords \<Rightarrow> state \<Rightarrow> state" where
  "onPosition e c s =
     (let s1 = s\<lparr>latitudeEl := toFixed e 6 (latitude c),
                 longitudeEl := toFixed e 6 (longitude c),
                 speedEl := (if truthy (speed c)
                             then toFixed e 2 (the (speed c) * 3.6) @ '' km/h'' else ''-''),
                 accuracyEl := toFixed e 2 (accuracy c) @ '' meters''\<rparr>;
          s2 = updateMap e c s1
      in s2\<lparr>positions := positions s2 @
                 [\<lparr>lat = latitude c, lon = longitude c, timestamp = None\<rparr>]\<rparr>)"

text \<open>
  What the patched \<open>watchPosition\<close> installs around it: the coordinates are stamped with
  the clock, then the success callback runs.
\<close>

definition watchCallback :: "env \<Rightarrow> position \<Rightarrow> state \<Rightarrow> state" where
  "watchCallback e p s =
     (let (now, s1) = Date_now e s
      in onPosition e ((coords p)\<lparr>c_timestamp := Some now\<rparr>) s1)"

subsection \<open>Saving a track (lines 154-214)\<close>

definition showNotification :: "string \<Rightarrow> state \<Rightarrow> state" where
  "showNotification message s = s\<lparr>notifications := notifications s @ [message]\<rparr>"

text \<open>
  Lines 201-203 of \<open>getTrackingDuration\<close>: the rounded number of seconds between
  \<open>start\<close> and \<open>end\<close>, both in milliseconds. The clock is read only where a
  timestamp is missing or zero. \<open>Math.round\<close> rounds halves up, so on integers it is
  the floor of the quotient after adding 500.
\<close>

definition trackingSeconds :: "env \<Rightarrow> state \<Rightarrow> int \<times> state" where
  "trackingSeconds e s =
     (let ps = positions s;
          (start, s1) = (if truthy (timestamp (ps ! 0)) then (the (timestamp (ps ! 0)), s)
                         else (let (now, s') = Date_now e s
                               in (now - int (length ps) * 1000, s')));
          (end, s2) = (if truthy (timestamp (ps ! (length ps - 1)))
                       then (the (timestamp (ps ! (length ps - 1))), s1)
                       else Date_now e s1)
      in ((end - start + 500) div 1000, s2))"

definition getTrackingDuration :: "env \<Rightarrow> state \<Rightarrow> string \<times> state" where
  "getTrackingDuration e s =
     (if length (positions s) < 2 then (''0s'', s)
      else (let (seconds, s') = trackingSeconds e s
            in (durationText seconds, s')))"

text \<open>The number of clock readings \<open>getTrackingDuration\<close> makes.\<close>

definition duration_reads :: "state \<Rightarrow> nat" where
  "duration_reads s =
     (if length (positions s) < 2 then 0
      else (if truthy (timestamp (positions s ! 0)) then 0 else 1) +
           (if truthy (timestamp (positions s ! (length (positions s) - 1))) then 0 else 1))"

definition point_json :: "point \<Rightarrow> json" where
  "point_json p = JArr [JNum (lat p), JNum (lon p)]"

definition getItem :: "state \<Rightarrow> payload option" where
  "getItem s = gpsTracks s"

definition setItem :: "env \<Rightarrow> json \<Rightarrow> state \<Rightarrow> error + state" where
  "setItem e v s = (if quota e v then Inr (s\<lparr>gpsTracks := Some (Json v)\<rparr>)
                    else Inl QuotaExceededError)"

text \<open>
  Line 158, \<open>JSON.parse(localStorage.getItem('gpsTracks') || '[]')\<close>: a missing item and
  an empty text are replaced by the text of the empty array.
\<close>

definition loadAll :: "state \<Rightarrow> error + json" where
  "loadAll s = JSON_parse (case getItem s of None \<Rightarrow> Json (JArr [])
                                           | Some EmptyText \<Rightarrow> Json (JArr [])
                                           | Some t \<Rightarrow> t)"

text \<open>
  The object literal of lines 159-166, as a record, and the value \<open>JSON.stringify\<close>
  writes for it.
\<close>

record track =
  t_id :: int
  t_date :: string
  t_startTime :: string
  t_positions :: "point list"
  t_distance :: real
  t_duration :: string

definition newTrack :: "env \<Rightarrow> state \<Rightarrow> track \<times> state" where
  "newTrack e s =
     (let (id, s1) = Date_now e s;
          (date, s2) = Date_now e s1;
          (started, s3) = Date_now e s2;
          distance = calculateDistance (positions s3);
          (duration, s4) = getTrackingDuration e s3
      in (\<lparr>t_id = id,
           t_date = toLocaleString e date,
           t_startTime = toLocaleTimeString e started,
           t_positions = positions s3,
           t_distance = distance,
           t_duration = duration\<rparr>, s4))"

definition track_json :: "track \<Rightarrow> json" where
  "track_json t = JObj [(''id'', JNum (of_int (t_id t))),
                        (''date'', JStr (t_date t)),
                        (''startTime'', JStr (t_startTime t)),
                        (''positions'', JArr (map point_json (t_positions t))),
                        (''distance'', JNum (t_distance t)),
                        (''duration'', JStr (t_duration t))]"

definition saveTrack :: "env \<Rightarrow> state \<Rightarrow> outcome" where
  "saveTrack e s =
     (if length (positions s) < 2 then Returned s
      else case loadAll s of
        Inl err \<Rightarrow> Threw err s
      | Inr tracks \<Rightarrow>
          (let (t, s4) = newTrack e s
           in case push tracks (track_json t) of
                Inl err \<Rightarrow> Threw err s4
              | Inr tracks' \<Rightarrow>
                  (case setItem e tracks' s4 of
                     Inl err \<Rightarrow> Threw err s4
                   | Inr s5 \<Rightarrow>
                       Returned (showNotification
                         (''Track saved: '' @ toFixed e 2 (t_distance t) @ '' km over '' @
                          t_duration t)
                         s5))))"

subsection \<open>Starting and stopping (lines 32-72 and 141-152)\<close>

definition startTracking :: "env \<Rightarrow> state \<Rightarrow> state" where
  "startTracking e s =
     (if geolocation e
      then (let s1 = s\<lparr>startBtnDisabled := True, stopBtnDisabled := False, positions := []\<rparr>;
                s2 = (if polyline s1 \<noteq> None then s1\<lparr>polylineOnMap := False\<rparr> else s1)
            in s2\<lparr>watchId := Some (nextWatchId s2),
                  activeWatches := activeWatches s2 @ [nextWatchId s2],
                  nextWatchId := nextWatchId s2 + 1\<rparr>)
      else s\<lparr>alerts := alerts s @ [''Geolocation is not supported by your browser'']\<rparr>)"

text \<open>Lines 143-148 of \<open>stopTracking\<close>: the watch is cleared and the buttons are switched.\<close>

definition stopWatch :: "state \<Rightarrow> state" where
  "stopWatch s =
     (let s1 = (if truthy (watchId s)
                then s\<lparr>activeWatches := removeAll (the (watchId s)) (activeWatches s),
                       watchId := None\<rparr>
                else s)
      in s1\<lparr>startBtnDisabled := False, stopBtnDisabled := True\<rparr>)"

definition stopTracking :: "env \<Rightarrow> state \<Rightarrow> outcome" where
  "stopTracking e s = saveTrack e (stopWatch s)"

text \<open>The error callback of lines 58-62.\<close>

definition onError :: "env \<Rightarrow> string \<Rightarrow> state \<Rightarrow> outcome" where
  "onError e message s = stopTracking e (s\<lparr>alerts := alerts s @ [''Error: '' @ message]\<rparr>)"

subsection \<open>Runs\<close>

text \<open>
  The program is driven by events: the three buttons and the two callbacks of the
  location watch. An exception that escapes a handler ends that handler only; the
  variables keep what the handler had written, and the next event is handled as usual.
  Every event may arrive in every state: the handlers themselves check nothing, and a
  browser that withholds the click of a disabled button only takes runs away.
\<close>

datatype event =
    ClickStart
  | ClickStop
  | ClickClear
  | PositionUpdate position
  | PositionError string

fun handle :: "env \<Rightarrow> event \<Rightarrow> state \<Rightarrow> outcome" where
  "handle e ClickStart s = Returned (startTracking e s)"
| "handle e ClickStop s = stopTracking e s"
| "handle e ClickClear s = Returned (clearTracking s)"
| "handle e (PositionUpdate p) s = Returned (watchCallback e p s)"
| "handle e (PositionError m) s = onError e m s"

fun run :: "env \<Rightarrow> event list \<Rightarrow> state \<Rightarrow> state" where
  "run e [] s = s"
| "run e (ev # evs) s = run e evs (after (handle e ev s))"

subsection \<open>Reading the stored collection\<close>

text \<open>Property access on a parsed value, and the ids of the stored records.\<close>

definition property :: "string \<Rightarrow> json \<Rightarrow> json option" where
  "property k v = (case v of JObj kvs \<Rightarrow> map_of kvs k | _ \<Rightarrow> None)"

definition stored :: "state \<Rightarrow> json list" where
  "stored s = (case loadAll s of Inr (JArr xs) \<Rightarrow> xs | _ \<Rightarrow> [])"

definition stored_ids :: "state \<Rightarrow> json option list" where
  "stored_ids s = map (property ''id'') (stored s)"

text \<open>
  The events that call \<open>stopTracking\<close>, whether handling an event saves a track, and the
  clock readings that the saves of a run take as ids: \<open>saveTrack\<close> reads the clock for
  the id first, and nothing before it in the handler reads the clock.
\<close>

fun is_stop :: "event \<Rightarrow> bool" where
  "is_stop ClickStop = True"
| "is_stop (PositionError m) = True"
| "is_stop ev = False"

definition saves :: "env \<Rightarrow> event \<Rightarrow> state \<Rightarrow> bool" where
  "saves e ev s = (is_stop ev \<and> 2 \<le> length (positions s) \<and> threw (handle e ev s) = None)"

fun id_readings :: "env \<Rightarrow> event list \<Rightarrow> state \<Rightarrow> int list" where
  "id_readings e [] s = []"
| "id_readings e (ev # evs) s =
     (if saves e ev s then [clock e (ticks s)] else []) @
     id_readings e evs (after (handle e ev s))"

subsection \<open>Sample inputs\<close>

text \<open>
  A browser whose clock advances by one millisecond per reading, the page as it is
  before the first click, and readings one degree of longitude apart on the equator.
\<close>

definition sample_env :: env where
  "sample_env = \<lparr>clock = (\<lambda>n. 1000 + int n), geolocation = True,
                  toFixed = (\<lambda>d x. ''?''), toLocaleString = (\<lambda>t. ''date''),
                  toLocaleTimeString = (\<lambda>t. ''time''), quota = (\<lambda>v. True)\<rparr>"

definition sample_state :: state where
  "sample_state =
     \<lparr>watchId = None, positions = [], startTime = None, lastPositionTime = None,
      marker = None, polyline = None, mapView = (0, 0), markerOnMap = False,
      polylineOnMap = False, startBtnDisabled = False, stopBtnDisabled = True,
      latitudeEl = ''-'', longitudeEl = ''-'', speedEl = ''-'', accuracyEl = ''-'',
      distanceEl = ''0 km'', durationEl = ''0s'', pointCountEl = ''0'',
      notifications = [], alerts = [], gpsTracks = None, activeWatches = [],
      nextWatchId = 1, ticks = 0\<rparr>"

definition reading :: "real \<Rightarrow> real \<Rightarrow> int \<Rightarrow> position" where
  "reading la lo t = \<lparr>coords = \<lparr>latitude = la, longitude = lo, speed = None, accuracy = 5,
                            c_timestamp = None\<rparr>,
                  p_timestamp = t\<rparr>"

definition pt :: "real \<Rightarrow> real \<Rightarrow> point" where
  "pt la lo = \<lparr>lat = la, lon = lo, timestamp = None\<rparr>"

section \<open>The distance calculator\<close>

subsection \<open>The haversine formula\<close>

lemma haversineDistance_a: "haversineDistance lat1 lon1 lat2 lon2 =
   6371 * (2 * atan2 (sqrt (haversine_a lat1 lon1 lat2 lon2)) (sqrt (1 - haversine_a lat1 lon1 lat2 lon2)))"
  by (simp add: haversineDistance_def haversine_a_def Let_def)

lemma sin_half_swap: "sin ((x - y) * pi / 180 / 2) = - sin ((y - x) * pi / 180 / 2)"
proof -
  have "(x - y) * pi / 180 / 2 = - ((y - x) * pi / 180 / 2)" by (simp add: field_simps)
  then show ?thesis by (simp only: sin_minus)
qed

lemma haversine_a_sym: "haversine_a lat1 lon1 lat2 lon2 = haversine_a lat2 lon2 lat1 lon1"
proof -
  have 1: "sin ((lat1 - lat2) * pi / 180 / 2) * sin ((lat1 - lat2) * pi / 180 / 2) =
           sin ((lat2 - lat1) * pi / 180 / 2) * sin ((lat2 - lat1) * pi / 180 / 2)"
    by (simp only: sin_half_swap[of lat1 lat2] minus_mult_minus)
  have 2: "sin ((lon1 - lon2) * pi / 180 / 2) * sin ((lon1 - lon2) * pi / 180 / 2) =
           sin ((lon2 - lon1) * pi / 180 / 2) * sin ((lon2 - lon1) * pi / 180 / 2)"
    by (simp only: sin_half_swap[of lon1 lon2] minus_mult_minus)
  have "haversine_a lat2 lon2 lat1 lon1 =
          sin ((lat1 - lat2) * pi / 180 / 2) * sin ((lat1 - lat2) * pi / 180 / 2) +
          cos (lat2 * pi / 180) * cos (lat1 * pi / 180) *
          (sin ((lon1 - lon2) * pi / 180 / 2) * sin ((lon1 - lon2) * pi / 180 / 2))"
    by (simp only: haversine_a_def mult.assoc)
  also have "\<dots> = sin ((lat2 - lat1) * pi / 180 / 2) * sin ((lat2 - lat1) * pi / 180 / 2) +
          cos (lat2 * pi / 180) * cos (lat1 * pi / 180) *
          (sin ((lon2 - lon1) * pi / 180 / 2) * sin ((lon2 - lon1) * pi / 180 / 2))"
    by (simp only: 1 2)
  also have "\<dots> = haversine_a lat1 lon1 lat2 lon2"
    by (simp only: haversine_a_def mult.assoc mult.commute[of "cos (lat2 * pi / 180)"] mult.left_commute[of "cos (lat2 * pi / 180)"])
  finally show ?thesis by simp
qed

lemma atan2_sqrt_zero:
  assumes "0 \<le> a"
  shows "(atan2 (sqrt a) (sqrt (1 - a)) = 0) = (a = 0)"
proof (cases "a < 1")
  case True
  then have "0 < sqrt (1 - a)" by simp
  then show ?thesis using assms by (simp add: atan2_def arctan_eq_zero_iff)
next
  case False
  show ?thesis
  proof (cases "a = 1")
    case True
    then show ?thesis by (simp add: atan2_def)
  next
    case F2: False
    with False have "1 < a" by simp
    then have neg: "sqrt (1 - a) < 0" by (simp add: real_sqrt_lt_0_iff)
    have "- (pi / 2) < arctan (sqrt a / sqrt (1 - a))" by (rule arctan_lbound)
    then have "arctan (sqrt a / sqrt (1 - a)) + pi \<noteq> 0" using pi_gt_zero by linarith
    then show ?thesis using neg assms \<open>1 < a\<close> by (simp add: atan2_def)
  qed
qed

text \<open>
  In exact arithmetic the quantity \<open>a\<close> lies in \<open>[0, 1]\<close> for all arguments, so in
  the model both square roots of line 194 are taken of non-negative numbers. In doubles
  \<open>a\<close> can exceed \<open>1\<close> by a rounding error.
\<close>

lemma sin_half_sq: "sin (x / 2) * sin (x / 2) = (1 - cos (x::real)) / 2"
  using cos_double_sin[of "x / 2"] by (simp add: power2_eq_square)

lemma prod_le_half_squares: "\<bar>x * y\<bar> \<le> (x * x + y * y) / (2::real)"
proof -
  have "0 \<le> (\<bar>x\<bar> - \<bar>y\<bar>) * (\<bar>x\<bar> - \<bar>y\<bar>)" by simp
  then have "2 * (\<bar>x\<bar> * \<bar>y\<bar>) \<le> \<bar>x\<bar> * \<bar>x\<bar> + \<bar>y\<bar> * \<bar>y\<bar>" by (simp add: algebra_simps)
  then show ?thesis by (simp add: abs_mult)
qed

lemma haversine_alg: "(1 - (c2 * c1 + s2 * s1)) / 2 + c1 * c2 * ((1 - k) / 2) =
                (1 - (s1 * s2 + c1 * c2 * k)) / (2::real)"
  by (simp add: field_simps)

lemma haversine_a_cos: "haversine_a lat1 lon1 lat2 lon2 =
  (1 - (sin (lat1 * pi / 180) * sin (lat2 * pi / 180) +
        cos (lat1 * pi / 180) * cos (lat2 * pi / 180) * cos ((lon2 - lon1) * pi / 180))) / 2"
proof -
  have d: "(lat2 - lat1) * pi / 180 = lat2 * pi / 180 - lat1 * pi / 180" by (simp add: field_simps)
  have "haversine_a lat1 lon1 lat2 lon2 =
      sin ((lat2 - lat1) * pi / 180 / 2) * sin ((lat2 - lat1) * pi / 180 / 2) +
      cos (lat1 * pi / 180) * cos (lat2 * pi / 180) *
     (sin ((lon2 - lon1) * pi / 180 / 2) * sin ((lon2 - lon1) * pi / 180 / 2))"
    by (simp only: haversine_a_def mult.assoc)
  also have "\<dots> = (1 - cos (lat2 * pi / 180 - lat1 * pi / 180)) / 2 +
      cos (lat1 * pi / 180) * cos (lat2 * pi / 180) * ((1 - cos ((lon2 - lon1) * pi / 180)) / 2)"
    by (simp only: sin_half_sq d)
  also have "\<dots> = (1 - (sin (lat1 * pi / 180) * sin (lat2 * pi / 180) +
        cos (lat1 * pi / 180) * cos (lat2 * pi / 180) * cos ((lon2 - lon1) * pi / 180))) / 2"
    by (simp only: cos_diff haversine_alg)
  finally show ?thesis .
qed

lemma haversine_a_range: "0 \<le> haversine_a lat1 lon1 lat2 lon2 \<and> haversine_a lat1 lon1 lat2 lon2 \<le> 1"
proof -
  define s1 s2 c1 c2 k where "s1 = sin (lat1 * pi / 180)" and "s2 = sin (lat2 * pi / 180)"
    and "c1 = cos (lat1 * pi / 180)" and "c2 = cos (lat2 * pi / 180)"
    and "k = cos ((lon2 - lon1) * pi / 180)"
  have u1: "s1 * s1 + c1 * c1 = 1" and u2: "s2 * s2 + c2 * c2 = 1"
    using sin_cos_squared_add[of "lat1 * pi / 180"] sin_cos_squared_add[of "lat2 * pi / 180"]
    by (simp_all add: s1_def s2_def c1_def c2_def power2_eq_square)
  have k: "\<bar>k\<bar> \<le> 1" by (simp add: k_def)
  have "\<bar>c1 * c2 * k\<bar> = \<bar>c1 * c2\<bar> * \<bar>k\<bar>" by (simp add: abs_mult)
  also have "\<dots> \<le> \<bar>c1 * c2\<bar> * 1" using k by (intro mult_left_mono) simp_all
  finally have b2: "\<bar>c1 * c2 * k\<bar> \<le> (c1 * c1 + c2 * c2) / 2"
    using prod_le_half_squares[of c1 c2] by simp
  have b1: "\<bar>s1 * s2\<bar> \<le> (s1 * s1 + s2 * s2) / 2" by (rule prod_le_half_squares)
  have "\<bar>s1 * s2 + c1 * c2 * k\<bar> \<le> \<bar>s1 * s2\<bar> + \<bar>c1 * c2 * k\<bar>"
    by (rule abs_triangle_ineq)
  also have "\<dots> \<le> (s1 * s1 + s2 * s2) / 2 + (c1 * c1 + c2 * c2) / 2"
    using b1 b2 by (rule add_mono)
  also have "\<dots> = ((s1 * s1 + c1 * c1) + (s2 * s2 + c2 * c2)) / 2"
    by (simp add: field_simps)
  also have "\<dots> = 1" by (simp only: u1 u2) simp
  finally have "\<bar>s1 * s2 + c1 * c2 * k\<bar> \<le> 1" .
  moreover have "haversine_a lat1 lon1 lat2 lon2 = (1 - (s1 * s2 + c1 * c2 * k)) / 2"
    by (simp only: haversine_a_cos s1_def s2_def c1_def c2_def k_def)
  ultimately show ?thesis by (simp add: abs_le_iff)
qed


lemma scale_bounds:
  assumes "- 1 < (t::real)" "t < 1" "0 < c"
  shows "- c < t * c" and "t * c < c"
proof -
  have "t * c < 1 * c" using assms by (intro mult_strict_right_mono)
  then show "t * c < c" by simp
  have "(- 1) * c < t * c" using assms by (intro mult_strict_right_mono)
  then show "- c < t * c" by simp
qed

lemma half_angle_zero:
  assumes "\<bar>d\<bar> < 360"
  shows "(sin (d * pi / 180 / 2) = 0) = (d = 0)"
proof
  assume z: "sin (d * pi / 180 / 2) = 0"
  have "d * pi / 180 / 2 = (d / 360) * pi" by simp
  moreover have "- 1 < d / 360" "d / 360 < 1" using assms by auto
  then have "- pi < (d / 360) * pi" "(d / 360) * pi < pi"
    using pi_gt_zero by (rule scale_bounds)+
  ultimately have "d * pi / 180 / 2 = 0" using z sin_eq_0_pi by metis
  then show "d = 0" by simp
next
  assume "d = 0" then show "sin (d * pi / 180 / 2) = 0" by simp
qed

lemma half_turn_zero:
  assumes "\<bar>d\<bar> \<le> 360"
  shows "(sin (d * pi / 180 / 2) = 0) = (d = 0 \<or> \<bar>d\<bar> = 360)"
proof (cases "\<bar>d\<bar> = 360")
  case True
  then have "d = 360 \<or> d = - 360" by linarith
  then show ?thesis by auto
next
  case False
  with assms have "\<bar>d\<bar> < 360" by simp
  then show ?thesis using half_angle_zero[of d] False by simp
qed

lemma cos_latitude_pos:
  assumes "\<bar>p\<bar> < 90"
  shows "0 < cos (p * pi / 180)"
proof -
  have e: "p * pi / 180 = (p / 90) * (pi / 2)" by simp
  have "- 1 < p / 90" "p / 90 < 1" using assms by auto
  moreover have "0 < pi / 2" by simp
  ultimately have "- (pi / 2) < (p / 90) * (pi / 2)" "(p / 90) * (pi / 2) < pi / 2"
    by (rule scale_bounds)+
  then show ?thesis using cos_gt_zero_pi e by metis
qed

lemma cos_latitude_zero:
  assumes "\<bar>p\<bar> \<le> 90"
  shows "(cos (p * pi / 180) = 0) = (\<bar>p\<bar> = 90)"
proof (cases "\<bar>p\<bar> = 90")
  case True
  then have "p = 90 \<or> p = - 90" by linarith
  then show ?thesis by auto
next
  case False
  with assms have "\<bar>p\<bar> < 90" by simp
  then show ?thesis using cos_latitude_pos[of p] False by simp
qed

lemma cos_latitude_nonneg: "\<bar>p\<bar> \<le> 90 \<Longrightarrow> 0 \<le> cos (p * pi / 180)"
  using cos_latitude_pos[of p] cos_latitude_zero[of p] by (cases "\<bar>p\<bar> = 90") auto

lemma haversine_a_zero_iff:
  assumes "\<bar>lat1\<bar> \<le> 90" "\<bar>lat2\<bar> \<le> 90" "\<bar>lon1\<bar> \<le> 180" "\<bar>lon2\<bar> \<le> 180"
  shows "(haversine_a lat1 lon1 lat2 lon2 = 0) =
         (lat1 = lat2 \<and> (lon1 = lon2 \<or> \<bar>lat1\<bar> = 90 \<or> \<bar>lon2 - lon1\<bar> = 360))"
proof -
  define sx sy c1 c2 where "sx = sin ((lat2 - lat1) * pi / 180 / 2)"
    and "sy = sin ((lon2 - lon1) * pi / 180 / 2)"
    and "c1 = cos (lat1 * pi / 180)" and "c2 = cos (lat2 * pi / 180)"
  have a: "haversine_a lat1 lon1 lat2 lon2 = sx * sx + c1 * c2 * (sy * sy)"
    by (simp only: haversine_a_def sx_def sy_def c1_def c2_def mult.assoc)
  have c1: "0 \<le> c1" and c2: "0 \<le> c2"
    using assms by (simp_all add: c1_def c2_def cos_latitude_nonneg)
  have t2: "0 \<le> c1 * c2 * (sy * sy)" using c1 c2 by simp
  have "(sx * sx + c1 * c2 * (sy * sy) = 0) = (sx * sx = 0 \<and> c1 * c2 * (sy * sy) = 0)"
    using t2 by (simp add: add_nonneg_eq_0_iff)
  then have split: "(haversine_a lat1 lon1 lat2 lon2 = 0) = (sx = 0 \<and> (c1 = 0 \<or> c2 = 0 \<or> sy = 0))"
    using a by auto
  have dlat: "\<bar>lat2 - lat1\<bar> < 360" and dlon: "\<bar>lon2 - lon1\<bar> \<le> 360" using assms by linarith+
  have sx: "(sx = 0) = (lat1 = lat2)"
    using half_angle_zero[OF dlat] by (auto simp: sx_def)
  have sy: "(sy = 0) = (lon1 = lon2 \<or> \<bar>lon2 - lon1\<bar> = 360)"
    using half_turn_zero[OF dlon] by (auto simp: sy_def)
  have z1: "(c1 = 0) = (\<bar>lat1\<bar> = 90)" and z2: "(c2 = 0) = (\<bar>lat2\<bar> = 90)"
    using assms by (simp_all add: c1_def c2_def cos_latitude_zero)
  show ?thesis unfolding split sx sy z1 z2 by auto
qed

text \<open>
  The formula in exact arithmetic, for latitudes in \<open>[-90, 90]\<close> and longitudes in
  \<open>[-180, 180]\<close>: it is symmetric, it is zero from a point to itself, and it is zero
  exactly when the two coordinate pairs denote the same point of the sphere: equal
  latitudes and either equal longitudes, or a pole, or the longitudes \<open>-180\<close> and
  \<open>180\<close>. What the program computes in doubles, and with it symmetry and zero up to a
  floating epsilon, is not expressed in this theory.
\<close>

lemma haversineDistance_exact_symmetric_zero:
  assumes "\<bar>lat1\<bar> \<le> 90" "\<bar>lat2\<bar> \<le> 90" "\<bar>lon1\<bar> \<le> 180" "\<bar>lon2\<bar> \<le> 180"
  shows "haversineDistance lat1 lon1 lat2 lon2 = haversineDistance lat2 lon2 lat1 lon1 \<and>
         haversineDistance lat1 lon1 lat1 lon1 = 0 \<and>
         ((haversineDistance lat1 lon1 lat2 lon2 = 0) =
          (lat1 = lat2 \<and> (lon1 = lon2 \<or> \<bar>lat1\<bar> = 90 \<or> \<bar>lon2 - lon1\<bar> = 360)))"
proof -
  have r: "0 \<le> haversine_a lat1 lon1 lat2 lon2" using haversine_a_range by simp
  have s: "haversineDistance lat1 lon1 lat2 lon2 = haversineDistance lat2 lon2 lat1 lon1"
    by (simp only: haversineDistance_a haversine_a_sym[of lat1 lon1 lat2 lon2])
  have z: "(haversineDistance lat1 lon1 lat2 lon2 = 0) = (haversine_a lat1 lon1 lat2 lon2 = 0)"
    using atan2_sqrt_zero[OF r] by (simp add: haversineDistance_a)
  have "haversine_a lat1 lon1 lat1 lon1 = 0" by (simp add: haversine_a_def)
  then have i: "haversineDistance lat1 lon1 lat1 lon1 = 0"
    by (simp add: haversineDistance_a atan2_def)
  show ?thesis using s i z haversine_a_zero_iff[OF assms] by simp
qed

lemma haversineDistance_exact_pole:
  "haversineDistance 90 0 90 10 = 0 \<and> (90::real, 0::real) \<noteq> (90, 10)"
  by (simp add: haversineDistance_a haversine_a_def atan2_def)

subsection \<open>The length of a path\<close>

lemma calculateDistance_loop_sum:
  "calculateDistance_loop ps i t =
     t + (\<Sum>k\<leftarrow>[i..<length ps]. haversineDistance (lat (ps ! (k - 1))) (lon (ps ! (k - 1)))
                                                (lat (ps ! k)) (lon (ps ! k)))"
proof (induction ps i t rule: calculateDistance_loop.induct)
  case (1 points i t)
  show ?case
  proof (cases "i < length points")
    case True
    then show ?thesis
      using 1 by (simp add: upt_conv_Cons del: calculateDistance_loop.simps
                            add: calculateDistance_loop.simps[of points i t])
  next
    case False
    then show ?thesis by simp
  qed
qed

text \<open>
  Claim C6. \<open>calculateDistance\<close> is \<open>0\<close> on the empty sequence and on a single point,
  and on every sequence it is the sum, in sequence order, of the haversine distances of
  consecutive points. It is a function of the sequence alone.
\<close>

theorem calculateDistance_consecutive_sum:
  "calculateDistance [] = 0 \<and> calculateDistance [p] = 0 \<and>
   calculateDistance points =
     (\<Sum>i\<leftarrow>[1..<length points]. haversineDistance (lat (points ! (i - 1))) (lon (points ! (i - 1)))
                                                   (lat (points ! i)) (lon (points ! i)))"
  by (simp add: calculateDistance_def calculateDistance_loop_sum
           del: calculateDistance_loop.simps)

section \<open>The recorder\<close>

subsection \<open>What the operations change\<close>

lemma trackingSeconds_state:
  "length (positions s) \<ge> 2 \<Longrightarrow> snd (trackingSeconds e s) = s\<lparr>ticks := ticks s + duration_reads s\<rparr>"
  by (simp add: trackingSeconds_def Date_now_def Let_def split_def duration_reads_def)

lemma getTrackingDuration_state:
  "snd (getTrackingDuration e s) = s\<lparr>ticks := ticks s + duration_reads s\<rparr>"
proof (cases "length (positions s) < 2")
  case True
  then show ?thesis by (simp add: getTrackingDuration_def duration_reads_def)
next
  case False
  then have "snd (getTrackingDuration e s) = snd (trackingSeconds e s)"
    by (simp add: getTrackingDuration_def Let_def split_def)
  then show ?thesis using False by (simp add: trackingSeconds_state)
qed

lemma duration_reads_ticks [simp]: "duration_reads (s\<lparr>ticks := n\<rparr>) = duration_reads s"
  by (simp add: duration_reads_def)

lemma newTrack_state:
  "snd (newTrack e s) = s\<lparr>ticks := ticks s + 3 + duration_reads s\<rparr>"
  by (simp add: newTrack_def Date_now_def Let_def split_def getTrackingDuration_state eval_nat_numeral)

lemma newTrack_fields:
  "t_id (fst (newTrack e s)) = clock e (ticks s)"
  "t_date (fst (newTrack e s)) = toLocaleString e (clock e (ticks s + 1))"
  "t_startTime (fst (newTrack e s)) = toLocaleTimeString e (clock e (ticks s + 2))"
  "t_positions (fst (newTrack e s)) = positions s"
  "t_distance (fst (newTrack e s)) = calculateDistance (positions s)"
  "t_duration (fst (newTrack e s)) = fst (getTrackingDuration e (s\<lparr>ticks := ticks s + 3\<rparr>))"
  by (simp_all add: newTrack_def Date_now_def Let_def split_def eval_nat_numeral)

lemma newTrack_cong:
  "positions s' = positions s \<Longrightarrow> ticks s' = ticks s \<Longrightarrow> fst (newTrack e s') = fst (newTrack e s)"
  by (simp add: newTrack_def getTrackingDuration_def trackingSeconds_def Date_now_def Let_def split_def)

lemma stopWatch_frame [simp]:
  "positions (stopWatch s) = positions s"
  "gpsTracks (stopWatch s) = gpsTracks s"
  "ticks (stopWatch s) = ticks s"
  "notifications (stopWatch s) = notifications s"
  "alerts (stopWatch s) = alerts s"
  by (simp_all add: stopWatch_def Let_def)

lemma loadAll_cong: "gpsTracks s' = gpsTracks s \<Longrightarrow> loadAll s' = loadAll s"
  by (simp add: loadAll_def getItem_def)

lemma saveTrack_short: "length (positions s) < 2 \<Longrightarrow> saveTrack e s = Returned s"
  by (simp add: saveTrack_def)

lemma saveTrack_unparsable:
  "2 \<le> length (positions s) \<Longrightarrow> loadAll s = Inl err \<Longrightarrow> saveTrack e s = Threw err s"
  by (simp add: saveTrack_def)

lemma saveTrack_not_array:
  "2 \<le> length (positions s) \<Longrightarrow> loadAll s = Inr v \<Longrightarrow> \<forall>xs. v \<noteq> JArr xs \<Longrightarrow>
   saveTrack e s = Threw TypeError (snd (newTrack e s))"
  by (cases v) (simp_all add: saveTrack_def push_def split_def)

lemma saveTrack_quota:
  "2 \<le> length (positions s) \<Longrightarrow> loadAll s = Inr (JArr xs) \<Longrightarrow>
   \<not> quota e (JArr (xs @ [track_json (fst (newTrack e s))])) \<Longrightarrow>
   saveTrack e s = Threw QuotaExceededError (snd (newTrack e s))"
  by (simp add: saveTrack_def push_def setItem_def split_def)

lemma saveTrack_saved:
  "2 \<le> length (positions s) \<Longrightarrow> loadAll s = Inr (JArr xs) \<Longrightarrow>
   quota e (JArr (xs @ [track_json (fst (newTrack e s))])) \<Longrightarrow>
   saveTrack e s =
     Returned (showNotification
       (''Track saved: '' @ toFixed e 2 (t_distance (fst (newTrack e s))) @ '' km over '' @
        t_duration (fst (newTrack e s)))
       ((snd (newTrack e s))\<lparr>gpsTracks := Some (Json (JArr (xs @ [track_json (fst (newTrack e s))])))\<rparr>))"
  by (simp add: saveTrack_def push_def setItem_def split_def Let_def)

lemma loadAll_written [simp]:
  "loadAll (showNotification m (s\<lparr>gpsTracks := Some (Json v)\<rparr>)) = Inr v"
  by (simp add: loadAll_def getItem_def JSON_parse_def showNotification_def)

lemma stopTracking_saved:
  assumes "2 \<le> length (positions s)" "loadAll s = Inr (JArr old)"
          "quota e (JArr (old @ [track_json (fst (newTrack e s))]))"
  shows "threw (stopTracking e s) = None"
    and "loadAll (after (stopTracking e s)) = Inr (JArr (old @ [track_json (fst (newTrack e s))]))"
    and "positions (after (stopTracking e s)) = positions s"
    and "ticks (after (stopTracking e s)) = ticks s + 3 + duration_reads s"
proof -
  have n: "fst (newTrack e (stopWatch s)) = fst (newTrack e s)" by (rule newTrack_cong) simp_all
  have l: "loadAll (stopWatch s) = Inr (JArr old)"
    using assms(2) loadAll_cong[of "stopWatch s" s] by simp
  have p: "2 \<le> length (positions (stopWatch s))" using assms(1) by simp
  have q: "quota e (JArr (old @ [track_json (fst (newTrack e (stopWatch s)))]))"
    using assms(3) by (simp only: n)
  note sv = saveTrack_saved[OF p l q]
  show "threw (stopTracking e s) = None" by (simp only: stopTracking_def sv threw.simps)
  show "loadAll (after (stopTracking e s)) = Inr (JArr (old @ [track_json (fst (newTrack e s))]))"
    by (simp only: stopTracking_def sv after.simps loadAll_written n)
  have r: "duration_reads (stopWatch s) = duration_reads s" by (simp add: duration_reads_def)
  show "positions (after (stopTracking e s)) = positions s"
    by (simp add: stopTracking_def sv newTrack_state showNotification_def)
  show "ticks (after (stopTracking e s)) = ticks s + 3 + duration_reads s"
    by (simp add: stopTracking_def sv newTrack_state showNotification_def r)
qed

lemma sample_state_simps [simp]:
  "positions sample_state = []" "gpsTracks sample_state = None" "ticks sample_state = 0"
  "watchId sample_state = None" "alerts sample_state = []" "notifications sample_state = []"
  by (simp_all add: sample_state_def)

lemma sample_env_simps [simp]:
  "clock sample_env n = 1000 + int n" "geolocation sample_env" "quota sample_env v"
  by (simp_all add: sample_env_def)

lemma loadAll_empty [simp]: "gpsTracks s = None \<Longrightarrow> loadAll s = Inr (JArr [])"
  by (simp add: loadAll_def getItem_def JSON_parse_def)

lemmas run_defs = startTracking_def stopTracking_def stopWatch_def saveTrack_def newTrack_def
  watchCallback_def onPosition_def
  updateMap_def updateStats_def Date_now_def truthy_def loadAll_def getItem_def JSON_parse_def
  push_def setItem_def getTrackingDuration_def trackingSeconds_def showNotification_def Let_def
  point_json_def track_json_def durationText_def show_int_def digit_def clearTracking_def onError_def
  sample_env_def sample_state_def reading_def pt_def stored_def stored_ids_def property_def

lemma updateStats_frame [simp]:
  "positions (updateStats e s) = positions s"
  "gpsTracks (updateStats e s) = gpsTracks s"
  "ticks (updateStats e s) = ticks s + (if truthy (startTime s) then 1 else 0)"
  by (simp_all add: updateStats_def Date_now_def Let_def split_def)

lemma updateMap_frame [simp]:
  "positions (updateMap e c s) = positions s"
  "gpsTracks (updateMap e c s) = gpsTracks s"
  "ticks (updateMap e c s) = ticks s + (if truthy (startTime s) then 1 else 0)"
  by (simp_all add: updateMap_def Let_def)

lemma onPosition_frame [simp]:
  "positions (onPosition e c s) =
     positions s @ [\<lparr>lat = latitude c, lon = longitude c, timestamp = None\<rparr>]"
  "gpsTracks (onPosition e c s) = gpsTracks s"
  "ticks (onPosition e c s) = ticks s + (if truthy (startTime s) then 1 else 0)"
  by (simp_all add: onPosition_def Let_def)

lemma watchCallback_frame [simp]:
  "gpsTracks (watchCallback e p s) = gpsTracks s"
  "ticks (watchCallback e p s) = ticks s + 1 + (if truthy (startTime s) then 1 else 0)"
  by (simp_all add: watchCallback_def Date_now_def Let_def split_def)

lemma startTracking_frame [simp]:
  "gpsTracks (startTracking e s) = gpsTracks s"
  "ticks (startTracking e s) = ticks s"
  by (simp_all add: startTracking_def Let_def)

lemma clearTracking_frame [simp]:
  "gpsTracks (clearTracking s) = gpsTracks s"
  "ticks (clearTracking s) = ticks s"
  by (simp_all add: clearTracking_def Let_def)

lemma watchCallback_positions:
  "positions (watchCallback e p s) =
     positions s @ [\<lparr>lat = latitude (coords p), lon = longitude (coords p), timestamp = None\<rparr>]"
  by (simp add: watchCallback_def Date_now_def Let_def split_def)

lemma startTracking_positions: "geolocation e \<Longrightarrow> positions (startTracking e s) = []"
  by (simp add: startTracking_def Let_def)

lemma saveTrack_saved_after:
  assumes "2 \<le> length (positions s)" "loadAll s = Inr (JArr xs)"
          "quota e (JArr (xs @ [track_json (fst (newTrack e s))]))"
  shows "threw (saveTrack e s) = None"
    and "loadAll (after (saveTrack e s)) = Inr (JArr (xs @ [track_json (fst (newTrack e s))]))"
  by (simp_all only: saveTrack_saved[OF assms] threw.simps after.simps loadAll_written)

lemma saveTrack_not_array_after:
  assumes "2 \<le> length (positions s)" "gpsTracks s = Some (Json v)" "\<forall>xs. v \<noteq> JArr xs"
  shows "threw (saveTrack e s) = Some TypeError"
    and "gpsTracks (after (saveTrack e s)) = gpsTracks s"
    and "notifications (after (saveTrack e s)) = notifications s"
    and "alerts (after (saveTrack e s)) = alerts s"
proof -
  have l: "loadAll s = Inr v" using assms(2) by (simp add: loadAll_def getItem_def JSON_parse_def)
  note t = saveTrack_not_array[OF assms(1) l assms(3)]
  show "threw (saveTrack e s) = Some TypeError" by (simp only: t threw.simps)
  show "gpsTracks (after (saveTrack e s)) = gpsTracks s" by (simp add: t newTrack_state)
  show "notifications (after (saveTrack e s)) = notifications s" by (simp add: t newTrack_state)
  show "alerts (after (saveTrack e s)) = alerts s" by (simp add: t newTrack_state)
qed

lemma stored_loadAll: "loadAll s = Inr (JArr xs) \<Longrightarrow> stored s = xs"
  by (simp add: stored_def)

lemma trackingSeconds_stamped:
  assumes "truthy (timestamp (positions s ! 0))"
      and "truthy (timestamp (positions s ! (length (positions s) - 1)))"
  shows "fst (trackingSeconds e s) =
           (the (timestamp (positions s ! (length (positions s) - 1))) -
            the (timestamp (positions s ! 0)) + 500) div 1000"
  using assms by (simp add: trackingSeconds_def Let_def split_def)

lemma trackingSeconds_unstamped:
  assumes "\<not> truthy (timestamp (positions s ! 0))"
      and "\<not> truthy (timestamp (positions s ! (length (positions s) - 1)))"
  shows "fst (trackingSeconds e s) =
           (clock e (ticks s + 1) - (clock e (ticks s) - int (length (positions s)) * 1000) + 500)
           div 1000"
  using assms by (simp add: trackingSeconds_def Date_now_def Let_def split_def)

lemma newTrack_duration:
  "2 \<le> length (positions s) \<Longrightarrow>
   t_duration (fst (newTrack e s)) =
     durationText (fst (trackingSeconds e (s\<lparr>ticks := ticks s + 3\<rparr>)))"
  by (simp add: newTrack_fields getTrackingDuration_def Let_def split_def)

lemma property_id_track [simp]:
  "property ''id'' (track_json t) = Some (JNum (of_int (t_id t)))"
  by (simp add: property_def track_json_def)

lemma saveTrack_store:
  assumes "loadAll s = Inr (JArr rs)"
  shows "loadAll (after (saveTrack e s)) =
           Inr (JArr (rs @ (if 2 \<le> length (positions s) \<and> threw (saveTrack e s) = None
                            then [track_json (fst (newTrack e s))] else [])))"
proof (cases "length (positions s) < 2")
  case True
  then show ?thesis using assms by (simp add: saveTrack_short)
next
  case False
  then have len: "2 \<le> length (positions s)" by simp
  show ?thesis
  proof (cases "quota e (JArr (rs @ [track_json (fst (newTrack e s))]))")
    case True
    show ?thesis
      using len by (simp only: saveTrack_saved[OF len assms True] after.simps threw.simps
                               loadAll_written) simp
  next
    case False
    have g: "gpsTracks (snd (newTrack e s)) = gpsTracks s" by (simp add: newTrack_state)
    have "loadAll (snd (newTrack e s)) = Inr (JArr rs)"
      using assms loadAll_cong[OF g] by simp
    then show ?thesis by (simp add: saveTrack_quota[OF len assms False])
  qed
qed

lemma handle_store:
  assumes "loadAll s = Inr (JArr rs)"
  shows "\<exists>recs. loadAll (after (handle e ev s)) = Inr (JArr (rs @ recs)) \<and>
                map (property ''id'') recs =
                  (if saves e ev s then [Some (JNum (of_int (clock e (ticks s))))] else [])"
proof -
  have keep: "\<exists>recs. loadAll s' = Inr (JArr (rs @ recs)) \<and> map (property ''id'') recs = []"
    if "gpsTracks s' = gpsTracks s" for s'
    using assms loadAll_cong[OF that] by simp
  have stop: "\<exists>recs. loadAll (after (saveTrack e s0)) = Inr (JArr (rs @ recs)) \<and>
                map (property ''id'') recs =
                  (if 2 \<le> length (positions s) \<and> threw (saveTrack e s0) = None
                   then [Some (JNum (of_int (clock e (ticks s))))] else [])"
    if g: "gpsTracks s0 = gpsTracks s" and p: "positions s0 = positions s"
      and t: "ticks s0 = ticks s" for s0
  proof -
    have l0: "loadAll s0 = Inr (JArr rs)" using assms loadAll_cong[OF g] by simp
    show ?thesis
      unfolding saveTrack_store[OF l0] by (simp add: p t newTrack_fields)
  qed
  show ?thesis
  proof (cases ev)
    case ClickStart
    then show ?thesis using keep[of "startTracking e s"] by (simp add: saves_def)
  next
    case ClickStop
    then show ?thesis using stop[of "stopWatch s"] by (simp add: saves_def stopTracking_def)
  next
    case ClickClear
    then show ?thesis using keep[of "clearTracking s"] by (simp add: saves_def)
  next
    case (PositionUpdate p)
    then show ?thesis using keep[of "watchCallback e p s"] by (simp add: saves_def)
  next
    case (PositionError m)
    then show ?thesis
      using stop[of "stopWatch (s\<lparr>alerts := alerts s @ [''Error: '' @ m]\<rparr>)"]
      by (simp add: saves_def stopTracking_def onError_def)
  qed
qed

lemma run_store:
  "loadAll s = Inr (JArr rs) \<Longrightarrow>
   \<exists>recs. loadAll (run e evs s) = Inr (JArr (rs @ recs)) \<and>
          map (property ''id'') recs = map (\<lambda>t. Some (JNum (of_int t))) (id_readings e evs s)"
proof (induction evs arbitrary: s rs)
  case Nil
  then show ?case by simp
next
  case (Cons ev evs)
  obtain r1 where r1: "loadAll (after (handle e ev s)) = Inr (JArr (rs @ r1))"
    "map (property ''id'') r1 =
       (if saves e ev s then [Some (JNum (of_int (clock e (ticks s))))] else [])"
    using handle_store[OF Cons.prems] by blast
  obtain r2 where r2: "loadAll (run e evs (after (handle e ev s))) = Inr (JArr ((rs @ r1) @ r2))"
    "map (property ''id'') r2 =
       map (\<lambda>t. Some (JNum (of_int t))) (id_readings e evs (after (handle e ev s)))"
    using Cons.IH[OF r1(1)] by blast
  show ?case
    using r1(2) r2 by (intro exI[of _ "r1 @ r2"]) simp
qed

subsection \<open>Stopping a session\<close>

text \<open>
  Claim C1, as the code has it. With fewer than two positions \<open>stopTracking\<close> returns
  normally: no exception, the stored collection, the notifications and the alerts are
  left as they were. With two or more positions, a stored collection that is an array
  and a write the storage accepts, it returns normally and the collection is the old
  one followed by the new track, whose distance is \<open>calculateDistance\<close> of the
  positions.
\<close>

theorem stopTracking_short_or_saved:
  "(length (positions s) < 2 \<longrightarrow>
      stopTracking e s = Returned (stopWatch s) \<and> gpsTracks (stopWatch s) = gpsTracks s \<and>
      notifications (stopWatch s) = notifications s \<and> alerts (stopWatch s) = alerts s) \<and>
   (2 \<le> length (positions s) \<and> loadAll s = Inr (JArr old) \<and>
    quota e (JArr (old @ [track_json (fst (newTrack e s))])) \<longrightarrow>
      threw (stopTracking e s) = None \<and>
      loadAll (after (stopTracking e s)) = Inr (JArr (old @ [track_json (fst (newTrack e s))])) \<and>
      t_distance (fst (newTrack e s)) = calculateDistance (positions s) \<and>
      t_positions (fst (newTrack e s)) = positions s)"
proof (intro conjI impI)
  assume "length (positions s) < 2"
  then show "stopTracking e s = Returned (stopWatch s)"
    by (simp add: stopTracking_def saveTrack_short)
next
  assume a: "2 \<le> length (positions s) \<and> loadAll s = Inr (JArr old) \<and>
             quota e (JArr (old @ [track_json (fst (newTrack e s))]))"
  then show "threw (stopTracking e s) = None" by (simp add: stopTracking_saved(1))
  from a show "loadAll (after (stopTracking e s)) =
               Inr (JArr (old @ [track_json (fst (newTrack e s))]))"
    by (simp add: stopTracking_saved(2))
qed (simp_all add: newTrack_fields)

theorem stopTracking_short_or_saved_witness:
  "length (positions sample_state) < 2 \<and>
   stopTracking sample_env sample_state = Returned (stopWatch sample_state) \<and>
   2 \<le> length (positions (sample_state\<lparr>positions := [pt 0 0, pt 0 1]\<rparr>)) \<and>
   loadAll (sample_state\<lparr>positions := [pt 0 0, pt 0 1]\<rparr>) = Inr (JArr []) \<and>
   threw (stopTracking sample_env (sample_state\<lparr>positions := [pt 0 0, pt 0 1]\<rparr>)) = None \<and>
   t_distance (fst (newTrack sample_env (sample_state\<lparr>positions := [pt 0 0, pt 0 1]\<rparr>))) =
     calculateDistance [pt 0 0, pt 0 1]"
  using stopTracking_short_or_saved [of sample_state sample_env]
        stopTracking_short_or_saved [of "sample_state\<lparr>positions := [pt 0 0, pt 0 1]\<rparr>" sample_env "[]"]
  by simp

text \<open>
  Claim C1 as stated fails: after a session with one sample, stopping raises nothing
  and reports nothing.
\<close>

theorem stop_one_sample_counterexample:
  "length (positions (run sample_env [ClickStart, PositionUpdate (reading 0 0 0)] sample_state)) = 1 \<and>
   threw (handle sample_env ClickStop
            (run sample_env [ClickStart, PositionUpdate (reading 0 0 0)] sample_state)) = None \<and>
   alerts (after (handle sample_env ClickStop
            (run sample_env [ClickStart, PositionUpdate (reading 0 0 0)] sample_state))) = [] \<and>
   notifications (after (handle sample_env ClickStop
            (run sample_env [ClickStart, PositionUpdate (reading 0 0 0)] sample_state))) = []"
  by (simp add: run_defs)

subsection \<open>Receiving a reading\<close>

text \<open>
  Claim C2, as the code has it. Every delivered reading, whatever its timestamps, is
  appended to \<open>positions\<close>: the sequence grows by exactly one element and the
  callback returns normally.
\<close>

theorem watchCallback_appends:
  "positions (watchCallback e p s) =
     positions s @ [\<lparr>lat = latitude (coords p), lon = longitude (coords p), timestamp = None\<rparr>] \<and>
   length (positions (watchCallback e p s)) = length (positions s) + 1 \<and>
   handle e (PositionUpdate p) s = Returned (watchCallback e p s)"
  by (simp add: watchCallback_def Date_now_def Let_def split_def)

text \<open>
  Claim C2 as stated fails: a reading captured earlier than the one stored before it,
  and delivered at an earlier clock reading, is appended all the same.
\<close>

theorem stale_sample_counterexample:
  "p_timestamp (reading 0 1 1000) < p_timestamp (reading 0 0 2000) \<and>
   clock (sample_env\<lparr>clock := \<lambda>n. if n = 0 then 2000 else 1000 + int n\<rparr>) 1 <
   clock (sample_env\<lparr>clock := \<lambda>n. if n = 0 then 2000 else 1000 + int n\<rparr>) 0 \<and>
   length (positions (run (sample_env\<lparr>clock := \<lambda>n. if n = 0 then 2000 else 1000 + int n\<rparr>)
     [ClickStart, PositionUpdate (reading 0 0 2000)] sample_state)) = 1 \<and>
   length (positions (run (sample_env\<lparr>clock := \<lambda>n. if n = 0 then 2000 else 1000 + int n\<rparr>)
     [ClickStart, PositionUpdate (reading 0 0 2000), PositionUpdate (reading 0 1 1000)]
     sample_state)) = 2"
  by (simp add: watchCallback_positions startTracking_positions reading_def)

subsection \<open>Starting a session\<close>

text \<open>
  Claim C3, as the code has it. Where geolocation is available, \<open>startTracking\<close>, in
  every state, empties \<open>positions\<close>, registers a new watch and keeps its id, disables
  the start button and enables the stop button, so that a statistics update made right
  after it reports 0 points; and it returns normally, also while a watch is active.
\<close>

theorem startTracking_resets:
  "geolocation e \<Longrightarrow>
   positions (startTracking e s) = [] \<and>
   watchId (startTracking e s) = Some (nextWatchId s) \<and>
   activeWatches (startTracking e s) = activeWatches s @ [nextWatchId s] \<and>
   startBtnDisabled (startTracking e s) \<and> \<not> stopBtnDisabled (startTracking e s) \<and>
   pointCountEl (updateStats e (startTracking e s)) = ''0'' \<and>
   handle e ClickStart s = Returned (startTracking e s)"
  by (simp add: startTracking_def updateStats_def Date_now_def Let_def split_def digit_def show_nat.simps)

theorem startTracking_resets_witness:
  "geolocation sample_env \<and>
   positions (startTracking sample_env (sample_state\<lparr>positions := [pt 0 0, pt 0 1]\<rparr>)) = [] \<and>
   watchId (startTracking sample_env (sample_state\<lparr>positions := [pt 0 0, pt 0 1]\<rparr>)) = Some 1 \<and>
   pointCountEl (updateStats sample_env
     (startTracking sample_env (sample_state\<lparr>positions := [pt 0 0, pt 0 1]\<rparr>))) = ''0''"
  using startTracking_resets [of sample_env "sample_state\<lparr>positions := [pt 0 0, pt 0 1]\<rparr>"]
  by (simp add: sample_state_def)

text \<open>
  Claim C3 as stated fails: started a second time while recording, the program raises
  nothing and registers a second watch; and \<open>startTime\<close> is not set by the start.
\<close>

theorem start_while_recording_counterexample:
  "watchId (run sample_env [ClickStart] sample_state) = Some 1 \<and>
   threw (handle sample_env ClickStart (run sample_env [ClickStart] sample_state)) = None \<and>
   activeWatches (run sample_env [ClickStart, ClickStart] sample_state) = [1, 2] \<and>
   startTime (run sample_env [ClickStart] sample_state) = None"
  by (simp add: startTracking_def Let_def sample_state_def)

subsection \<open>The duration of a track\<close>

text \<open>
  Claim C4, as the code has it. With two or more positions, the duration of the new
  track comes from the \<open>timestamp\<close> properties of the first and the last position when
  both are present and non-zero, rounded to whole seconds; when both are missing it is
  an estimate of one second per position, added to the clock's advance between the two
  readings the function takes. The time since the start of the session is not used.
\<close>

theorem newTrack_duration_source:
  "2 \<le> length (positions s) \<Longrightarrow>
   (truthy (timestamp (positions s ! 0)) \<and>
    truthy (timestamp (positions s ! (length (positions s) - 1))) \<longrightarrow>
      t_duration (fst (newTrack e s)) =
        durationText ((the (timestamp (positions s ! (length (positions s) - 1))) -
                       the (timestamp (positions s ! 0)) + 500) div 1000)) \<and>
   (\<not> truthy (timestamp (positions s ! 0)) \<and>
    \<not> truthy (timestamp (positions s ! (length (positions s) - 1))) \<longrightarrow>
      t_duration (fst (newTrack e s)) =
        durationText ((clock e (ticks s + 4) -
                       (clock e (ticks s + 3) - int (length (positions s)) * 1000) + 500)
                      div 1000))"
  by (simp add: newTrack_duration trackingSeconds_stamped trackingSeconds_unstamped
                add.commute[of 3] numeral_eq_Suc)

theorem newTrack_duration_source_witness:
  "2 \<le> length (positions (sample_state\<lparr>positions :=
       [\<lparr>lat = 0, lon = 0, timestamp = Some 1000\<rparr>, \<lparr>lat = 0, lon = 1, timestamp = Some 61000\<rparr>]\<rparr>)) \<and>
   truthy (Some (1000::int)) \<and> truthy (Some (61000::int)) \<and>
   t_duration (fst (newTrack sample_env (sample_state\<lparr>positions :=
       [\<lparr>lat = 0, lon = 0, timestamp = Some 1000\<rparr>, \<lparr>lat = 0, lon = 1, timestamp = Some 61000\<rparr>]\<rparr>))) =
     ''1m 0s'' \<and>
   \<not> truthy (timestamp (pt 0 0)) \<and> \<not> truthy (timestamp (pt 0 1)) \<and>
   t_duration (fst (newTrack sample_env (sample_state\<lparr>positions := [pt 0 0, pt 0 1]\<rparr>))) =
     ''0m 2s''"
  using newTrack_duration_source
          [of "sample_state\<lparr>positions :=
                 [\<lparr>lat = 0, lon = 0, timestamp = Some 1000\<rparr>, \<lparr>lat = 0, lon = 1, timestamp = Some 61000\<rparr>]\<rparr>"
              sample_env]
        newTrack_duration_source [of "sample_state\<lparr>positions := [pt 0 0, pt 0 1]\<rparr>" sample_env]
  by (simp add: truthy_def pt_def durationText_def show_int_def show_nat.simps digit_def
                smod_int_alt_def)

text \<open>
  Claim C4 as stated fails: two readings captured and delivered ten minutes apart, the
  session stopped after the second one, and the saved duration is \<open>0m 2s\<close>.
\<close>

theorem duration_counterexample:
  "p_timestamp (reading 0 1 601000) - p_timestamp (reading 0 0 1000) = 600000 \<and>
   clock (sample_env\<lparr>clock := \<lambda>n. if n = 0 then 1000 else 601000 + int n\<rparr>) 1 -
   clock (sample_env\<lparr>clock := \<lambda>n. if n = 0 then 1000 else 601000 + int n\<rparr>) 0 = 600001 \<and>
   map (property ''duration'')
     (stored (run (sample_env\<lparr>clock := \<lambda>n. if n = 0 then 1000 else 601000 + int n\<rparr>)
        [ClickStart, PositionUpdate (reading 0 0 1000), PositionUpdate (reading 0 1 601000),
         ClickStop] sample_state)) = [Some (JStr ''0m 2s'')]"
  by (simp add: run_defs show_nat.simps smod_int_alt_def)

subsection \<open>The store after a save\<close>



subsection \<open>A corrupt store\<close>

text \<open>
  Claim C8, as the code has it. With two or more positions to save, a stored text that
  is not empty and not valid JSON makes \<open>saveTrack\<close> end in the \<open>SyntaxError\<close> of
  \<open>JSON.parse\<close>, uncaught, with the state as it was; a stored value that is not an array
  makes it end in the \<open>TypeError\<close> of \<open>push\<close>, uncaught, with the stored text, the
  notifications and the alerts as they were. Nothing is recovered and nothing is
  written. The empty text, which is not valid JSON either, never reaches the parser:
  line 158 puts \<open>'[]'\<close> in its place, so the save succeeds and overwrites it.
\<close>

theorem saveTrack_corrupt_store:
  "2 \<le> length (positions s) \<Longrightarrow>
   (gpsTracks s = Some Malformed \<longrightarrow> saveTrack e s = Threw SyntaxError s) \<and>
   (gpsTracks s = Some (Json v) \<and> (\<forall>xs. v \<noteq> JArr xs) \<longrightarrow>
      threw (saveTrack e s) = Some TypeError \<and>
      gpsTracks (after (saveTrack e s)) = gpsTracks s \<and>
      notifications (after (saveTrack e s)) = notifications s \<and>
      alerts (after (saveTrack e s)) = alerts s) \<and>
   (gpsTracks s = Some EmptyText \<and> quota e (JArr [track_json (fst (newTrack e s))]) \<longrightarrow>
      threw (saveTrack e s) = None \<and>
      gpsTracks (after (saveTrack e s)) =
        Some (Json (JArr [track_json (fst (newTrack e s))])))"
proof (intro conjI impI)
  assume p: "2 \<le> length (positions s)" and "gpsTracks s = Some Malformed"
  then have "loadAll s = Inl SyntaxError" by (simp add: loadAll_def getItem_def JSON_parse_def)
  then show "saveTrack e s = Threw SyntaxError s" using p by (rule saveTrack_unparsable[rotated])
next
  assume p: "2 \<le> length (positions s)"
     and a: "gpsTracks s = Some (Json v) \<and> (\<forall>xs. v \<noteq> JArr xs)"
  from a have g: "gpsTracks s = Some (Json v)" and n: "\<forall>xs. v \<noteq> JArr xs" by simp_all
  show "threw (saveTrack e s) = Some TypeError" by (rule saveTrack_not_array_after(1)[OF p g n])
  show "gpsTracks (after (saveTrack e s)) = gpsTracks s"
    by (rule saveTrack_not_array_after(2)[OF p g n])
  show "notifications (after (saveTrack e s)) = notifications s"
    by (rule saveTrack_not_array_after(3)[OF p g n])
  show "alerts (after (saveTrack e s)) = alerts s"
    by (rule saveTrack_not_array_after(4)[OF p g n])
next
  assume p: "2 \<le> length (positions s)"
     and a: "gpsTracks s = Some EmptyText \<and> quota e (JArr [track_json (fst (newTrack e s))])"
  from a have l: "loadAll s = Inr (JArr [])" by (simp add: loadAll_def getItem_def JSON_parse_def)
  from a have q: "quota e (JArr ([] @ [track_json (fst (newTrack e s))]))" by simp
  show "threw (saveTrack e s) = None" by (rule saveTrack_saved_after(1)[OF p l q])
  show "gpsTracks (after (saveTrack e s)) =
        Some (Json (JArr [track_json (fst (newTrack e s))]))"
    by (simp add: saveTrack_saved[OF p l q] showNotification_def)
qed

theorem saveTrack_corrupt_store_witness:
  "2 \<le> length (positions (sample_state\<lparr>positions := [pt 0 0, pt 0 1], gpsTracks := Some Malformed\<rparr>)) \<and>
   saveTrack sample_env (sample_state\<lparr>positions := [pt 0 0, pt 0 1], gpsTracks := Some Malformed\<rparr>) =
     Threw SyntaxError (sample_state\<lparr>positions := [pt 0 0, pt 0 1], gpsTracks := Some Malformed\<rparr>) \<and>
   threw (saveTrack sample_env
            (sample_state\<lparr>positions := [pt 0 0, pt 0 1], gpsTracks := Some (Json JNull)\<rparr>)) =
     Some TypeError \<and>
   JSON_parse EmptyText = Inl SyntaxError \<and>
   threw (saveTrack sample_env
            (sample_state\<lparr>positions := [pt 0 0, pt 0 1], gpsTracks := Some EmptyText\<rparr>)) = None \<and>
   gpsTracks (after (saveTrack sample_env
            (sample_state\<lparr>positions := [pt 0 0, pt 0 1], gpsTracks := Some EmptyText\<rparr>))) \<noteq>
     Some EmptyText"
  using saveTrack_corrupt_store
          [of "sample_state\<lparr>positions := [pt 0 0, pt 0 1], gpsTracks := Some Malformed\<rparr>" sample_env]
        saveTrack_corrupt_store
          [of "sample_state\<lparr>positions := [pt 0 0, pt 0 1], gpsTracks := Some (Json JNull)\<rparr>"
              sample_env JNull]
        saveTrack_corrupt_store
          [of "sample_state\<lparr>positions := [pt 0 0, pt 0 1], gpsTracks := Some EmptyText\<rparr>"
              sample_env]
  by (simp add: JSON_parse_def)

text \<open>
  Claim C8 as stated fails: with a malformed stored text, stopping ends in an uncaught
  \<open>SyntaxError\<close>; the stored text is not replaced and nothing is reported.
\<close>

theorem corrupt_store_counterexample:
  "threw (handle sample_env ClickStop
            (sample_state\<lparr>positions := [pt 0 0, pt 0 1], gpsTracks := Some Malformed\<rparr>)) =
     Some SyntaxError \<and>
   gpsTracks (after (handle sample_env ClickStop
            (sample_state\<lparr>positions := [pt 0 0, pt 0 1], gpsTracks := Some Malformed\<rparr>))) =
     Some Malformed \<and>
   alerts (after (handle sample_env ClickStop
            (sample_state\<lparr>positions := [pt 0 0, pt 0 1], gpsTracks := Some Malformed\<rparr>))) = [] \<and>
   notifications (after (handle sample_env ClickStop
            (sample_state\<lparr>positions := [pt 0 0, pt 0 1], gpsTracks := Some Malformed\<rparr>))) = []"
  by (simp add: stopTracking_def saveTrack_def loadAll_def getItem_def JSON_parse_def)

subsection \<open>The ids of the stored tracks\<close>

text \<open>
  Claim C9, as the code has it. Starting from an empty store, the ids of the stored
  records are, in order, the clock readings taken by the stops that saved a track. So
  the ids are pairwise different exactly when those readings are.
\<close>

theorem stored_ids_are_clock_readings:
  "gpsTracks s = None \<Longrightarrow>
   stored_ids (run e evs s) = map (\<lambda>t. Some (JNum (of_int t))) (id_readings e evs s) \<and>
   distinct (stored_ids (run e evs s)) = distinct (id_readings e evs s)"
proof -
  assume "gpsTracks s = None"
  then have "loadAll s = Inr (JArr [])" by simp
  then obtain recs where recs: "loadAll (run e evs s) = Inr (JArr ([] @ recs))"
    "map (property ''id'') recs = map (\<lambda>t. Some (JNum (of_int t))) (id_readings e evs s)"
    using run_store by blast
  have eq: "stored_ids (run e evs s) = map (\<lambda>t. Some (JNum (of_int t))) (id_readings e evs s)"
    using recs by (simp add: stored_ids_def stored_def)
  have "inj (\<lambda>t::int. Some (JNum (of_int t)))" by (simp add: inj_def)
  then show ?thesis using eq by (simp add: distinct_map inj_on_def)
qed

theorem stored_ids_are_clock_readings_witness:
  "gpsTracks sample_state = None \<and>
   id_readings sample_env
     [ClickStart, PositionUpdate (reading 0 0 0), PositionUpdate (reading 0 1 0), ClickStop,
      ClickStop] sample_state = [1002, 1007] \<and>
   stored_ids (run sample_env
     [ClickStart, PositionUpdate (reading 0 0 0), PositionUpdate (reading 0 1 0), ClickStop,
      ClickStop] sample_state) = [Some (JNum 1002), Some (JNum 1007)] \<and>
   distinct (stored_ids (run sample_env
     [ClickStart, PositionUpdate (reading 0 0 0), PositionUpdate (reading 0 1 0), ClickStop,
      ClickStop] sample_state))"
proof -
  have r: "id_readings sample_env
     [ClickStart, PositionUpdate (reading 0 0 0), PositionUpdate (reading 0 1 0), ClickStop,
      ClickStop] sample_state = [1002, 1007]"
    by (simp add: saves_def run_defs show_nat.simps smod_int_alt_def)
  show ?thesis
    using stored_ids_are_clock_readings [of sample_state sample_env
      "[ClickStart, PositionUpdate (reading 0 0 0), PositionUpdate (reading 0 1 0), ClickStop,
        ClickStop]"]
    by (simp add: r del: id_readings.simps run.simps)
qed

text \<open>
  Claim C9 as stated fails: two complete sessions, the clock set back by a few
  milliseconds between them, and both records have the id 5002.
\<close>

theorem reused_id_counterexample:
  "stored_ids (run (sample_env\<lparr>clock := \<lambda>n. if n < 7 then 5000 + int n else 4993 + int n\<rparr>)
     [ClickStart, PositionUpdate (reading 0 0 0), PositionUpdate (reading 0 1 0), ClickStop,
      ClickStart, PositionUpdate (reading 0 0 0), PositionUpdate (reading 0 1 0), ClickStop]
     sample_state) = [Some (JNum 5002), Some (JNum 5002)]"
  by (simp add: run_defs show_nat.simps smod_int_alt_def)

subsection \<open>Stopping twice\<close>

text \<open>
  Claim C10. \<open>stopTracking\<close> looks at no recording state before it saves. In every
  state with two or more positions, whose stored collection is an array and whose
  storage accepts writes, stopping appends the track and returns normally; it keeps
  the positions, so stopping once more appends a second record with the same positions
  and the same distance.
\<close>

theorem stopTracking_again_appends:
  assumes "2 \<le> length (positions s)" and "loadAll s = Inr (JArr old)" and "\<forall>v. quota e v"
  shows "threw (stopTracking e s) = None \<and>
         stored (after (stopTracking e s)) = old @ [track_json (fst (newTrack e s))] \<and>
         threw (stopTracking e (after (stopTracking e s))) = None \<and>
         stored (after (stopTracking e (after (stopTracking e s)))) =
           old @ [track_json (fst (newTrack e s)),
                  track_json (fst (newTrack e (after (stopTracking e s))))] \<and>
         t_positions (fst (newTrack e (after (stopTracking e s)))) =
           t_positions (fst (newTrack e s)) \<and>
         t_distance (fst (newTrack e (after (stopTracking e s)))) =
           t_distance (fst (newTrack e s))"
proof -
  define s1 where "s1 = after (stopTracking e s)"
  define r1 where "r1 = track_json (fst (newTrack e s))"
  have q: "quota e (JArr (old @ [r1]))" using assms(3) by simp
  note first = stopTracking_saved[OF assms(1) assms(2) q[unfolded r1_def]]
  have l1: "loadAll s1 = Inr (JArr (old @ [r1]))" using first(2) by (simp add: s1_def r1_def)
  have p1: "positions s1 = positions s" using first(3) by (simp add: s1_def)
  have len1: "2 \<le> length (positions s1)" using assms(1) p1 by simp
  have q1: "quota e (JArr ((old @ [r1]) @ [track_json (fst (newTrack e s1))]))"
    using assms(3) by simp
  note second = stopTracking_saved[OF len1 l1 q1]
  have a: "threw (stopTracking e s) = None" by (rule first(1))
  have b: "stored s1 = old @ [r1]" by (rule stored_loadAll[OF l1])
  have c: "threw (stopTracking e s1) = None" by (rule second(1))
  have d: "stored (after (stopTracking e s1)) = old @ [r1, track_json (fst (newTrack e s1))]"
    using stored_loadAll[OF second(2)] by simp
  have f: "t_positions (fst (newTrack e s1)) = t_positions (fst (newTrack e s))"
    by (simp add: newTrack_fields p1)
  have g: "t_distance (fst (newTrack e s1)) = t_distance (fst (newTrack e s))"
    by (simp add: newTrack_fields p1)
  show ?thesis using a b c d f g by (simp only: s1_def r1_def)
qed

theorem stopTracking_again_appends_witness:
  "2 \<le> length (positions (sample_state\<lparr>positions := [pt 0 0, pt 0 1]\<rparr>)) \<and>
   loadAll (sample_state\<lparr>positions := [pt 0 0, pt 0 1]\<rparr>) = Inr (JArr []) \<and>
   (\<forall>v. quota sample_env v) \<and>
   threw (stopTracking sample_env
     (after (stopTracking sample_env (sample_state\<lparr>positions := [pt 0 0, pt 0 1]\<rparr>)))) = None \<and>
   length (stored (after (stopTracking sample_env
     (after (stopTracking sample_env (sample_state\<lparr>positions := [pt 0 0, pt 0 1]\<rparr>)))))) = 2"
  using stopTracking_again_appends
          [of "sample_state\<lparr>positions := [pt 0 0, pt 0 1]\<rparr>" "[]" sample_env]
  by simp

end
